theory Spec2Isabelle
  imports Main
begin

section \<open>JSON values and the JavaScript operations the server applies to them\<close>

text \<open>
  A deserialized payload is a JSON value; \<open>undefined\<close> is \<open>None\<close> of \<open>json option\<close>.
  Numbers are integers here: no function below does arithmetic on a payload number.
  Strings are lists of 8-bit characters.
\<close>

datatype json =
    JNull
  | JBool bool
  | JNum int
  | JStr string
  | JArr "json list"
  | JObj "(string \<times> json) list"

text \<open>JavaScript truthiness, as used by \<open>!x\<close> and \<open>x || y\<close>.\<close>

fun truthy :: "json option \<Rightarrow> bool" where
  "truthy None = False"
| "truthy (Some JNull) = False"
| "truthy (Some (JBool b)) = b"
| "truthy (Some (JNum n)) = (n \<noteq> 0)"
| "truthy (Some (JStr s)) = (s \<noteq> [])"
| "truthy (Some (JArr xs)) = True"
| "truthy (Some (JObj kvs)) = True"

text \<open>\<open>typeof x === 'object'\<close>: true of \<open>null\<close>, arrays and objects.\<close>

fun typeof_object :: "json option \<Rightarrow> bool" where
  "typeof_object (Some JNull) = True"
| "typeof_object (Some (JArr xs)) = True"
| "typeof_object (Some (JObj kvs)) = True"
| "typeof_object _ = False"

text \<open>\<open>x || {}\<close>.\<close>

definition or_empty_object :: "json option \<Rightarrow> json" where
  "or_empty_object x = (case x of None \<Rightarrow> JObj [] | Some v \<Rightarrow> if truthy x then v else JObj [])"

text \<open>
  What JavaScript raises. \<open>MCPError\<close> is the repository's error class
  (\<open>code\<close>, \<open>message\<close>, \<open>data\<close>); \<open>JsError\<close> is any other \<open>Error\<close> instance, with
  its message; \<open>NonError\<close> is a thrown value that is no \<open>Error\<close>, carried as
  \<open>String(value)\<close>, the only thing the code ever reads of it.
\<close>

datatype MCPErrorCode =
    PARSE_ERROR
  | INVALID_REQUEST
  | METHOD_NOT_FOUND
  | INVALID_PARAMS
  | INTERNAL_ERROR
  | INITIALIZATION_FAILED
  | RESOURCE_NOT_FOUND
  | TOOL_EXECUTION_ERROR
  | PROMPT_NOT_FOUND
  | SAMPLING_ERROR
  | TRANSPORT_ERROR
  | VALIDATION_ERROR
  | AUTHORIZATION_ERROR
  | RATE_LIMIT_ERROR
  | TIMEOUT_ERROR

text \<open>The numeric value of each member of the enum \<open>MCPErrorCode\<close>.\<close>

fun code_value :: "MCPErrorCode \<Rightarrow> int" where
  "code_value PARSE_ERROR = -32700"
| "code_value INVALID_REQUEST = -32600"
| "code_value METHOD_NOT_FOUND = -32601"
| "code_value INVALID_PARAMS = -32602"
| "code_value INTERNAL_ERROR = -32603"
| "code_value INITIALIZATION_FAILED = -32000"
| "code_value RESOURCE_NOT_FOUND = -32001"
| "code_value TOOL_EXECUTION_ERROR = -32002"
| "code_value PROMPT_NOT_FOUND = -32003"
| "code_value SAMPLING_ERROR = -32004"
| "code_value TRANSPORT_ERROR = -32005"
| "code_value VALIDATION_ERROR = -32006"
| "code_value AUTHORIZATION_ERROR = -32007"
| "code_value RATE_LIMIT_ERROR = -32008"
| "code_value TIMEOUT_ERROR = -32009"

datatype MCPError = MCPError MCPErrorCode string "json option"

datatype thrown =
    Thrown_MCPError MCPError
  | Thrown_JsError string
  | Thrown_NonError string

text \<open>\<open>error instanceof Error ? error.message : String(error)\<close>.\<close>

fun error_text :: "thrown \<Rightarrow> string" where
  "error_text (Thrown_MCPError (MCPError c m d)) = m"
| "error_text (Thrown_JsError m) = m"
| "error_text (Thrown_NonError s) = s"

text \<open>Sequencing of steps that may throw: the first throw ends the sequence.\<close>

definition and_then :: "thrown + 'a \<Rightarrow> ('a \<Rightarrow> thrown + 'b) \<Rightarrow> thrown + 'b" where
  "and_then m f = (case m of Inl e \<Rightarrow> Inl e | Inr v \<Rightarrow> f v)"

text \<open>
  Reading a property \<open>x.k\<close>. On \<open>undefined\<close> and \<open>null\<close> it raises a \<open>TypeError\<close>; on an
  object it is the own property or \<open>undefined\<close>; on any other value it is \<open>undefined\<close>.
  It is applied below only to the names \<open>jsonrpc\<close>, \<open>id\<close>, \<open>method\<close>, \<open>params\<close>,
  \<open>clientInfo\<close>, \<open>name\<close>, \<open>version\<close>, \<open>protocolVersion\<close>, \<open>capabilities\<close> and
  \<open>arguments\<close>, none of which is inherited from a prototype.
\<close>

fun getProp :: "json option \<Rightarrow> string \<Rightarrow> thrown + json option" where
  "getProp None k =
     Inl (Thrown_JsError (''Cannot read properties of undefined (reading '' @ [CHR 0x27] @ k @ [CHR 0x27] @ '')''))"
| "getProp (Some JNull) k =
     Inl (Thrown_JsError (''Cannot read properties of null (reading '' @ [CHR 0x27] @ k @ [CHR 0x27] @ '')''))"
| "getProp (Some (JObj kvs)) k = Inr (map_of kvs k)"
| "getProp (Some v) k = Inr None"

text \<open>
  The conversion of a value to a string inside a template literal. For a number it is the
  decimal notation, which is what JavaScript prints for an integer of magnitude below
  \<open>10^21\<close>; the exponent notation of larger numbers is not modelled.
\<close>

definition digit_char :: "nat \<Rightarrow> char" where
  "digit_char d = char_of (48 + d)"

fun digits :: "nat \<Rightarrow> string" where
  "digits n = (if n < 10 then [digit_char n] else digits (n div 10) @ [digit_char (n mod 10)])"

fun join :: "string \<Rightarrow> string list \<Rightarrow> string" where
  "join sep [] = []"
| "join sep [x] = x"
| "join sep (x # y # ys) = x @ sep @ join sep (y # ys)"

fun json_String :: "json \<Rightarrow> string" where
  "json_String JNull = ''null''"
| "json_String (JBool b) = (if b then ''true'' else ''false'')"
| "json_String (JNum n) = (if n < 0 then ''-'' @ digits (nat (- n)) else digits (nat n))"
| "json_String (JStr s) = s"
| "json_String (JArr xs) = join '','' (map (\<lambda>x. if x = JNull then [] else json_String x) xs)"
| "json_String (JObj kvs) = ''[object Object]''"

definition to_String :: "json option \<Rightarrow> string" where
  "to_String x = (case x of None \<Rightarrow> ''undefined'' | Some v \<Rightarrow> json_String v)"

text \<open>\<open>s.includes(t)\<close> on strings.\<close>

fun starts_with :: "string \<Rightarrow> string \<Rightarrow> bool" where
  "starts_with s [] = True"
| "starts_with [] (c # cs) = False"
| "starts_with (d # ds) (c # cs) = (d = c \<and> starts_with ds cs)"

fun str_includes :: "string \<Rightarrow> string \<Rightarrow> bool" where
  "str_includes [] t = (t = [])"
| "str_includes (c # cs) t = (starts_with (c # cs) t \<or> str_includes cs t)"

text \<open>A single quote, for the quoted names inside messages.\<close>

definition apostrophe :: string where
  "apostrophe = [CHR 0x27]"

section \<open>The JSON-RPC envelope (types/mcp.types.ts)\<close>

text \<open>
  \<open>JSONRPCRequest\<close>. The field \<open>jsonrpc\<close> is whatever the payload carried (the handler
  checks it at run time); \<open>id\<close> and \<open>params\<close> are \<open>None\<close> when the payload had none, as
  in a notification.
\<close>

record JSONRPCRequest =
  req_jsonrpc :: "json option"
  req_id :: "json option"
  req_method :: string
  req_params :: "json option"

record JSONRPCError =
  err_code :: int
  err_message :: string
  err_data :: "json option"

record JSONRPCResponse =
  res_jsonrpc :: string
  res_id :: "json option"
  res_result :: "json option"
  res_error :: "JSONRPCError option"

record JSONRPCNotification =
  ntf_jsonrpc :: string
  ntf_method :: string
  ntf_params :: "json option"

text \<open>\<open>MCPError.toJSONRPCError\<close>.\<close>

fun toJSONRPCError :: "MCPError \<Rightarrow> JSONRPCError" where
  "toJSONRPCError (MCPError c m d) = \<lparr>err_code = code_value c, err_message = m, err_data = d\<rparr>"

section \<open>The handler contract (handlers/base.handler.ts)\<close>

text \<open>
  A Joi object schema is used through \<open>schema.validate(params)\<close> only, which returns
  \<open>{error, value}\<close>. The library is not part of the repository, so a schema is the function
  from the params to that pair; an error carries its \<open>message\<close> and its \<open>details\<close>. The
  schema of \<open>initialize\<close> is written out below; that of \<open>tools/call\<close> stays a parameter.
\<close>

datatype ValidationError = ValidationError string json

type_synonym ObjectSchema = "json option \<Rightarrow> ValidationError option \<times> json option"

text \<open>
  \<open>BaseMCPHandler\<close>: the method a handler is bound to and its two abstract members.
  \<open>getParamsSchema\<close> is \<open>None\<close> where the subclass returns \<open>null\<close>. \<open>execute\<close> is an
  async function: it returns a result or rejects with what was thrown.
\<close>

record BaseMCPHandler =
  handler_method :: string
  getParamsSchema :: "ObjectSchema option"
  execute :: "json option \<Rightarrow> JSONRPCRequest \<Rightarrow> thrown + json"

definition createError :: "MCPErrorCode \<Rightarrow> string \<Rightarrow> json option \<Rightarrow> thrown" where
  "createError c m d = Thrown_MCPError (MCPError c m d)"

text \<open>
  \<open>validateRequest\<close>. Its first test, \<open>!request\<close>, is false of every request record:
  \<open>handle\<close> has read \<open>request.id\<close> before it calls this.
\<close>

definition validateRequest :: "BaseMCPHandler \<Rightarrow> JSONRPCRequest \<Rightarrow> thrown + unit" where
  "validateRequest h request =
     (if req_jsonrpc request \<noteq> Some (JStr ''2.0'') then
        Inl (Thrown_MCPError (MCPError INVALID_REQUEST ''Invalid JSON-RPC version'' None))
      else if req_method request \<noteq> handler_method h then
        Inl (Thrown_MCPError (MCPError METHOD_NOT_FOUND
          (''Expected method '' @ apostrophe @ handler_method h @ apostrophe @ '', got '' @ apostrophe @ req_method request @ apostrophe) None))
      else Inr ())"

definition validateParams :: "BaseMCPHandler \<Rightarrow> json option \<Rightarrow> thrown + json option" where
  "validateParams h params =
     (case getParamsSchema h of
        None \<Rightarrow> Inr (Some (or_empty_object params))
      | Some schema \<Rightarrow>
          (case schema params of
             (Some (ValidationError msg details), v) \<Rightarrow>
               Inl (Thrown_MCPError (MCPError INVALID_PARAMS
                 (''Parameter validation failed: '' @ msg)
                 (Some (JObj [(''validationDetails'', details)]))))
           | (None, v) \<Rightarrow> Inr v))"

text \<open>The three stages inside the \<open>try\<close> of \<open>handle\<close>, short-circuiting on the first throw.\<close>

definition pipeline :: "BaseMCPHandler \<Rightarrow> JSONRPCRequest \<Rightarrow> thrown + json" where
  "pipeline h request =
     and_then (validateRequest h request) (\<lambda>u.
     and_then (validateParams h (req_params request)) (\<lambda>validatedParams.
     execute h validatedParams request))"

text \<open>
  \<open>handle\<close>. \<open>NODE_ENV\<close> is \<open>process.env['NODE_ENV']\<close>. Logging is left out: it reads
  the request and changes nothing the caller sees.
\<close>

definition handle :: "string option \<Rightarrow> BaseMCPHandler \<Rightarrow> JSONRPCRequest \<Rightarrow> JSONRPCResponse" where
  "handle NODE_ENV h request =
     (let requestId = req_id request in
      case pipeline h request of
        Inr result \<Rightarrow>
          \<lparr>res_jsonrpc = ''2.0'', res_id = requestId, res_result = Some result, res_error = None\<rparr>
      | Inl (Thrown_MCPError e) \<Rightarrow>
          \<lparr>res_jsonrpc = ''2.0'', res_id = requestId, res_result = None,
           res_error = Some (toJSONRPCError e)\<rparr>
      | Inl other \<Rightarrow>
          \<lparr>res_jsonrpc = ''2.0'', res_id = requestId, res_result = None,
           res_error = Some \<lparr>err_code = code_value INTERNAL_ERROR, err_message = ''Internal server error'',
             err_data = (if NODE_ENV = Some ''development''
                     then Some (JObj [(''originalError'', JStr (error_text other))])
                     else None)\<rparr>\<rparr>)"

section \<open>The handler registry (MCPHandlerRegistry)\<close>

record MCPHandlerRegistry =
  handlers :: "string \<rightharpoonup> BaseMCPHandler"

text \<open>
  \<open>register\<close> returns whether it threw, and the registry after the call.
\<close>

definition register :: "BaseMCPHandler \<Rightarrow> MCPHandlerRegistry \<Rightarrow> (thrown + unit) \<times> MCPHandlerRegistry" where
  "register handler reg =
     (if handlers reg (handler_method handler) \<noteq> None then
        (Inl (Thrown_JsError (''Handler for method '' @ apostrophe @ handler_method handler @ apostrophe @ '' is already registered'')), reg)
      else (Inr (), reg\<lparr>handlers := (handlers reg)(handler_method handler \<mapsto> handler)\<rparr>))"

definition getHandler :: "MCPHandlerRegistry \<Rightarrow> string \<Rightarrow> BaseMCPHandler option" where
  "getHandler reg m = handlers reg m"

definition handleRequest :: "string option \<Rightarrow> MCPHandlerRegistry \<Rightarrow> JSONRPCRequest \<Rightarrow> JSONRPCResponse" where
  "handleRequest NODE_ENV reg request =
     (case getHandler reg (req_method request) of
        None \<Rightarrow>
          \<lparr>res_jsonrpc = ''2.0'', res_id = req_id request, res_result = None,
           res_error = Some \<lparr>err_code = code_value METHOD_NOT_FOUND,
             err_message = ''Method '' @ apostrophe @ req_method request @ apostrophe @ '' not found'', err_data = None\<rparr>\<rparr>
      | Some handler \<Rightarrow> handle NODE_ENV handler request)"

section \<open>Joi schemas (the library's validation, for the schema of initialize)\<close>

text \<open>
  The schema of \<open>initialize\<close> decides which requests reach \<open>execute\<close>, so it is written out
  and validated as Joi 17 does with its default preferences: a key is optional unless
  marked required, a key the object schema does not name is not allowed, \<open>null\<close> is of no
  type, a string must not be empty, a boolean may come as the string \<open>true\<close> or \<open>false\<close>
  in any case (it is converted), and the first error ends the validation.
  \<open>Joi_object p None\<close> is \<open>Joi.object()\<close>, which takes any object;
  \<open>Joi_object p (Some keys)\<close> is \<open>Joi.object({...})\<close>. \<open>.description(...)\<close> changes nothing.
\<close>

datatype presence = optional | required

datatype joi =
    Joi_string presence
  | Joi_boolean presence
  | Joi_object presence "(string \<times> joi) list option"

fun presence_of :: "joi \<Rightarrow> presence" where
  "presence_of (Joi_string p) = p"
| "presence_of (Joi_boolean p) = p"
| "presence_of (Joi_object p keys) = p"

text \<open>
  An error report: the message \<open>"label" text\<close>, and as details the one item with the
  message, the path, the error type and the context. The label is the path joined by
  dots, or \<open>value\<close> at the root.
\<close>

definition label :: "string list \<Rightarrow> string" where
  "label path = (if path = [] then ''value'' else join ''.'' path)"

definition report ::
  "string \<Rightarrow> string \<Rightarrow> (string \<times> json) list \<Rightarrow> string list \<Rightarrow> json option \<Rightarrow> ValidationError" where
  "report type text local path v =
     (let msg = [CHR 0x22] @ label path @ [CHR 0x22] @ text;
          context = local @ [(''label'', JStr (label path))]
            @ (case v of None \<Rightarrow> [] | Some x \<Rightarrow> [(''value'', x)])
            @ (if path = [] then [] else [(''key'', JStr (last path))])
      in ValidationError msg
           (JArr [JObj [(''message'', JStr msg), (''path'', JArr (map JStr path)),
                        (''type'', JStr type), (''context'', JObj context)]]))"

text \<open>\<open>s.toLowerCase()\<close>, on the letters A to Z.\<close>

definition toLowerCase :: "string \<Rightarrow> string" where
  "toLowerCase s =
     map (\<lambda>c. if 65 \<le> (of_char c :: nat) \<and> (of_char c :: nat) \<le> 90
               then char_of ((of_char c :: nat) + 32) else c) s"

definition boolean_coerce :: "json \<Rightarrow> json" where
  "boolean_coerce v =
     (case v of
        JStr s \<Rightarrow>
          (if toLowerCase s = ''true'' then JBool True
           else if toLowerCase s = ''false'' then JBool False else v)
      | _ \<Rightarrow> v)"

text \<open>\<open>value[key] = result\<close> on an object.\<close>

fun assign :: "string \<Rightarrow> json \<Rightarrow> (string \<times> json) list \<Rightarrow> (string \<times> json) list" where
  "assign k v [] = [(k, v)]"
| "assign k v ((k', v') # kvs) = (if k' = k then (k, v) # kvs else (k', v') # assign k v kvs)"

text \<open>
  \<open>joi_validate schema path value\<close> is the error or the validated value;
  \<open>joi_keys\<close> validates the keys an object schema names, in the schema's order, putting
  each converted value in its place. The keys the schema does not name are looked at
  after those.
\<close>

fun joi_validate :: "joi \<Rightarrow> string list \<Rightarrow> json option \<Rightarrow> ValidationError + json option"
and joi_keys ::
  "(string \<times> joi) list \<Rightarrow> string list \<Rightarrow> (string \<times> json) list \<Rightarrow> ValidationError + (string \<times> json) list"
where
  "joi_validate schema path None =
     (if presence_of schema = required then Inl (report ''any.required'' '' is required'' [] path None)
      else Inr None)"
| "joi_validate (Joi_string p) path (Some v) =
     (case v of
        JStr s \<Rightarrow>
          (if s = [] then
             Inl (report ''string.empty'' '' is not allowed to be empty'' [] path (Some v))
           else Inr (Some v))
      | _ \<Rightarrow> Inl (report ''string.base'' '' must be a string'' [] path (Some v)))"
| "joi_validate (Joi_boolean p) path (Some v) =
     (case boolean_coerce v of
        JBool b \<Rightarrow> Inr (Some (JBool b))
      | c \<Rightarrow> Inl (report ''boolean.base'' '' must be a boolean'' [] path (Some c)))"
| "joi_validate (Joi_object p keys) path (Some v) =
     (case v of
        JObj kvs \<Rightarrow>
          (case keys of
             None \<Rightarrow> Inr (Some v)
           | Some ks \<Rightarrow>
               (case joi_keys ks path kvs of
                  Inl e \<Rightarrow> Inl e
                | Inr kvs' \<Rightarrow>
                    (case filter (\<lambda>kv. fst kv \<notin> set (map fst ks)) kvs' of
                       [] \<Rightarrow> Inr (Some (JObj kvs'))
                     | (k, x) # others \<Rightarrow>
                         Inl (report ''object.unknown'' '' is not allowed'' [(''child'', JStr k)]
                                (path @ [k]) (Some x)))))
      | _ \<Rightarrow>
          Inl (report ''object.base'' '' must be of type object'' [(''type'', JStr ''object'')]
                 path (Some v)))"
| "joi_keys [] path kvs = Inr kvs"
| "joi_keys ((k, s) # ks) path kvs =
     (case joi_validate s (path @ [k]) (map_of kvs k) of
        Inl e \<Rightarrow> Inl e
      | Inr None \<Rightarrow> joi_keys ks path kvs
      | Inr (Some v') \<Rightarrow> joi_keys ks path (assign k v' kvs))"

text \<open>\<open>schema.validate(params)\<close>: the pair \<open>{error, value}\<close>.\<close>

definition validate :: "joi \<Rightarrow> ObjectSchema" where
  "validate schema params =
     (case joi_validate schema [] params of
        Inl e \<Rightarrow> (Some e, params)
      | Inr v \<Rightarrow> (None, v))"

section \<open>The handshake handlers (handlers/initialization.handler.ts)\<close>

record serverInfo =
  si_name :: string
  si_version :: string

text \<open>\<open>InitializeHandler.isProtocolVersionSupported\<close>: \<open>['2024-11-05'].includes(version)\<close>.\<close>

definition supportedVersions :: "string list" where
  "supportedVersions = [''2024-11-05'']"

definition isProtocolVersionSupported :: "json option \<Rightarrow> bool" where
  "isProtocolVersionSupported version = (version \<in> set (map (\<lambda>s. Some (JStr s)) supportedVersions))"

text \<open>\<open>InitializeHandler.getServerInstructions\<close>: the template literal, trimmed.\<close>

definition getServerInstructions :: string where
  "getServerInstructions =
     ''# MCP Career Intelligence Server\<newline>\<newline>This server provides access to Mark Cena's career intelligence data through the Notion API.\<newline>\<newline>## Available Tools:\<newline>- **get_career_initiatives**: Retrieve current career development initiatives\<newline>- **get_achievements**: Fetch accomplishments and achievements\<newline>- **get_tasks**: Get current career development tasks\<newline>- **search_career_data**: Search across all career data\<newline>- **get_skill_analysis**: Analyze skills and competencies\<newline>\<newline>## Available Resources:\<newline>- **notion://initiatives**: Career initiatives database\<newline>- **notion://achievements**: Achievements database  \<newline>- **notion://tasks**: Tasks database\<newline>\<newline>## Available Prompts:\<newline>- **career_summary**: Generate a comprehensive career summary\<newline>- **skill_gap_analysis**: Analyze skill gaps for target roles\<newline>- **interview_preparation**: Prepare for technical interviews\<newline>\<newline>The server integrates with Notion API to provide real-time access to career development data for both Claude.ai integration and portfolio presentation.''"

text \<open>The capability set declared in \<open>InitializeHandler.execute\<close>.\<close>

definition serverCapabilities :: json where
  "serverCapabilities = JObj
     [(''tools'', JObj [(''listChanged'', JBool True)]),
      (''resources'', JObj [(''subscribe'', JBool True), (''listChanged'', JBool True)]),
      (''prompts'', JObj [(''listChanged'', JBool True)]),
      (''logging'', JObj [])]"

text \<open>
  \<open>InitializeHandler.execute\<close>. The first four reads are the arguments of the logging
  call that opens the function: they raise a \<open>TypeError\<close> when \<open>params\<close> or
  \<open>params.clientInfo\<close> is \<open>undefined\<close> or \<open>null\<close>.
\<close>

definition InitializeHandler_execute :: "serverInfo \<Rightarrow> json option \<Rightarrow> JSONRPCRequest \<Rightarrow> thrown + json" where
  "InitializeHandler_execute info params request =
     and_then (getProp params ''clientInfo'') (\<lambda>clientInfo.
     and_then (getProp clientInfo ''name'') (\<lambda>clientName.
     and_then (getProp clientInfo ''version'') (\<lambda>clientVersion.
     and_then (getProp params ''protocolVersion'') (\<lambda>protocolVersion.
     and_then (getProp params ''capabilities'') (\<lambda>clientCapabilities.
       if \<not> isProtocolVersionSupported protocolVersion then
         Inl (createError INITIALIZATION_FAILED
           (''Unsupported protocol version: '' @ to_String protocolVersion
              @ ''. Supported versions: 2024-11-05'')
           (Some (JObj [(''supportedVersions'', JArr [JStr ''2024-11-05''])])))
       else
         Inr (JObj
           [(''protocolVersion'', JStr ''2024-11-05''),
            (''capabilities'', serverCapabilities),
            (''serverInfo'', JObj [(''name'', JStr (si_name info)), (''version'', JStr (si_version info))]),
            (''instructions'', JStr getServerInstructions)]))))))"

text \<open>\<open>InitializeHandler.getParamsSchema\<close>.\<close>

definition InitializeHandler_getParamsSchema :: joi where
  "InitializeHandler_getParamsSchema =
     Joi_object optional (Some
       [(''protocolVersion'', Joi_string required),
        (''capabilities'', Joi_object required (Some
           [(''experimental'', Joi_object optional None),
            (''sampling'', Joi_object optional None),
            (''tools'', Joi_object optional (Some [(''listChanged'', Joi_boolean optional)])),
            (''resources'', Joi_object optional (Some
               [(''subscribe'', Joi_boolean optional), (''listChanged'', Joi_boolean optional)])),
            (''prompts'', Joi_object optional (Some [(''listChanged'', Joi_boolean optional)])),
            (''logging'', Joi_object optional None),
            (''roots'', Joi_object optional (Some [(''listChanged'', Joi_boolean optional)]))])),
        (''clientInfo'', Joi_object required (Some
           [(''name'', Joi_string required), (''version'', Joi_string required)]))])"

definition InitializeHandler :: "serverInfo \<Rightarrow> BaseMCPHandler" where
  "InitializeHandler info =
     \<lparr>handler_method = ''initialize'',
      getParamsSchema = Some (validate InitializeHandler_getParamsSchema),
      execute = InitializeHandler_execute info\<rparr>"

text \<open>\<open>InitializedHandler\<close>: no schema, and \<open>execute\<close> returns \<open>{}\<close>.\<close>

definition InitializedHandler :: BaseMCPHandler where
  "InitializedHandler =
     \<lparr>handler_method = ''initialized'', getParamsSchema = None,
      execute = (\<lambda>params request. Inr (JObj []))\<rparr>"

section \<open>The tool call handler (handlers/tools.handler.ts)\<close>

text \<open>
  The five tools query the Notion client, which is outside the repository's code: each is
  a function from the tool arguments to what the call returns or throws.
\<close>

record tools =
  getCareerInitiatives :: "json \<Rightarrow> thrown + json"
  getAchievements :: "json \<Rightarrow> thrown + json"
  getTasks :: "json \<Rightarrow> thrown + json"
  searchCareerData :: "json \<Rightarrow> thrown + json"
  getSkillAnalysis :: "json \<Rightarrow> thrown + json"

text \<open>The \<open>switch\<close> inside the \<open>try\<close> of \<open>ToolsCallHandler.execute\<close>.\<close>

definition call_tool :: "tools \<Rightarrow> json option \<Rightarrow> json option \<Rightarrow> thrown + json" where
  "call_tool ts toolName arguments =
     (if toolName = Some (JStr ''get_career_initiatives'') then
        getCareerInitiatives ts (or_empty_object arguments)
      else if toolName = Some (JStr ''get_achievements'') then
        getAchievements ts (or_empty_object arguments)
      else if toolName = Some (JStr ''get_tasks'') then
        getTasks ts (or_empty_object arguments)
      else if toolName = Some (JStr ''search_career_data'') then
        searchCareerData ts (or_empty_object arguments)
      else if toolName = Some (JStr ''get_skill_analysis'') then
        getSkillAnalysis ts (or_empty_object arguments)
      else
        Inl (createError METHOD_NOT_FOUND (''Unknown tool: '' @ to_String toolName) None))"

text \<open>
  The \<open>catch\<close> of \<open>ToolsCallHandler.execute\<close>: an \<open>Error\<close> whose message mentions the
  Notion API becomes an error result, anything else is thrown again.
\<close>

fun is_Error :: "thrown \<Rightarrow> bool" where
  "is_Error (Thrown_NonError s) = False"
| "is_Error e = True"

definition ToolsCallHandler_execute :: "tools \<Rightarrow> json option \<Rightarrow> JSONRPCRequest \<Rightarrow> thrown + json" where
  "ToolsCallHandler_execute ts params request =
     and_then (getProp params ''name'') (\<lambda>toolName.
     and_then (getProp params ''arguments'') (\<lambda>arguments.
       case call_tool ts toolName arguments of
         Inr r \<Rightarrow> Inr r
       | Inl error \<Rightarrow>
           if is_Error error \<and> str_includes (error_text error) ''Notion API'' then
             Inr (JObj
               [(''content'', JArr [JObj [(''type'', JStr ''text''),
                   (''text'', JStr (''Tool execution failed: '' @ error_text error))]]),
                (''isError'', JBool True)])
           else Inl error))"

definition ToolsCallHandler :: "ObjectSchema \<Rightarrow> tools \<Rightarrow> BaseMCPHandler" where
  "ToolsCallHandler schema ts =
     \<lparr>handler_method = ''tools/call'', getParamsSchema = Some schema,
      execute = ToolsCallHandler_execute ts\<rparr>"

section \<open>Transports (mcp/transport.ts)\<close>

text \<open>What a transport sends (\<open>JSONRPCResponse | JSONRPCNotification\<close>) and what it emits.\<close>

datatype wire = Response JSONRPCResponse | Notification JSONRPCNotification

datatype TransportEvent =
    message_event JSONRPCRequest
  | error_event MCPError
  | close_event
  | disconnect_event
  | connect_event

text \<open>
  The cast \<open>message as JSONRPCRequest\<close> of a payload whose \<open>method\<close> is the string \<open>m\<close>:
  the request's fields are the payload's properties.
\<close>

definition as_JSONRPCRequest :: "json option \<Rightarrow> string \<Rightarrow> thrown + JSONRPCRequest" where
  "as_JSONRPCRequest message m =
     and_then (getProp message ''jsonrpc'') (\<lambda>jsonrpc.
     and_then (getProp message ''id'') (\<lambda>i.
     and_then (getProp message ''params'') (\<lambda>params.
       Inr \<lparr>req_jsonrpc = jsonrpc, req_id = i, req_method = m, req_params = params\<rparr>)))"

subsection \<open>WebSocketTransport\<close>

text \<open>
  The socket.io socket is outside the repository: it is its \<open>connected\<close> flag, the message
  of the error \<open>socket.emit\<close> throws (if it throws) and the messages emitted on it.
  An \<open>Error\<close> object kept as \<open>originalError\<close> in the data of an \<open>MCPError\<close> is written as the
  object holding its message.
\<close>

record Socket =
  socket_connected :: bool
  emit_throws :: "string option"
  emitted :: "wire list"

record WebSocketTransport =
  socket :: Socket
  connected :: bool

definition handleMessage :: "json option \<Rightarrow> thrown + JSONRPCRequest" where
  "handleMessage data =
     (if \<not> truthy data \<or> \<not> typeof_object data then
        Inl (Thrown_MCPError (MCPError INVALID_REQUEST ''Message must be a valid JSON object'' None))
      else
        and_then (getProp data ''jsonrpc'') (\<lambda>jsonrpc.
          if jsonrpc \<noteq> Some (JStr ''2.0'') then
            Inl (Thrown_MCPError (MCPError INVALID_REQUEST ''Invalid JSON-RPC version'' None))
          else
            and_then (getProp data ''method'') (\<lambda>m.
              case m of
                Some (JStr s) \<Rightarrow>
                  if \<not> truthy m then
                    Inl (Thrown_MCPError (MCPError INVALID_REQUEST ''Missing or invalid method field'' None))
                  else as_JSONRPCRequest data s
              | _ \<Rightarrow>
                  Inl (Thrown_MCPError (MCPError INVALID_REQUEST ''Missing or invalid method field'' None)))))"

text \<open>
  The listener of the socket's \<open>message\<close> event, set up in \<open>setupEventHandlers\<close>: what
  the transport emits for a payload. (The listeners of the transport's own \<open>message\<close>
  event are the transport manager's and the server's, neither of which throws
  synchronously.)
\<close>

definition on_socket_message :: "json option \<Rightarrow> TransportEvent" where
  "on_socket_message data =
     (case handleMessage data of
        Inr request \<Rightarrow> message_event request
      | Inl error \<Rightarrow> error_event (MCPError PARSE_ERROR ''Failed to parse incoming message'' None))"

definition ws_send :: "wire \<Rightarrow> WebSocketTransport \<Rightarrow> thrown + WebSocketTransport" where
  "ws_send msg t =
     (if \<not> connected t then
        Inl (Thrown_MCPError (MCPError TRANSPORT_ERROR ''WebSocket not connected'' None))
      else
        (case emit_throws (socket t) of
           Some m \<Rightarrow>
             Inl (Thrown_MCPError (MCPError TRANSPORT_ERROR ''Failed to send WebSocket message''
               (Some (JObj [(''originalError'', JObj [(''message'', JStr m)])]))))
         | None \<Rightarrow> Inr (t\<lparr>socket := (socket t)\<lparr>emitted := emitted (socket t) @ [msg]\<rparr>\<rparr>)))"

definition ws_isConnected :: "WebSocketTransport \<Rightarrow> bool" where
  "ws_isConnected t = (connected t \<and> socket_connected (socket t))"

subsection \<open>StdioTransport\<close>

text \<open>
  \<open>stdout\<close> holds the messages written, each standing for the line
  \<open>JSON.stringify(message) + '\\n'\<close>; \<open>write_throws\<close> is the message of the error the write
  throws, if it throws.
\<close>

record StdioTransport =
  stdio_connected :: bool
  messageBuffer :: string
  write_throws :: "string option"
  stdout :: "wire list"

text \<open>\<open>s.split('\\n')\<close>: never empty; \<open>lines.pop()\<close> takes its last element.\<close>

fun split_on :: "char \<Rightarrow> string \<Rightarrow> string list" where
  "split_on sep [] = [[]]"
| "split_on sep (c # cs) =
     (if c = sep then [] # split_on sep cs
      else (case split_on sep cs of [] \<Rightarrow> [[c]] | x # xs \<Rightarrow> (c # x) # xs))"

definition pop :: "'a list \<Rightarrow> 'a option \<times> 'a list" where
  "pop xs = (case rev xs of [] \<Rightarrow> (None, []) | x # r \<Rightarrow> (Some x, rev r))"

text \<open>\<open>s.trim()\<close>: white space and line terminators, among the 8-bit characters.\<close>

definition is_space :: "char \<Rightarrow> bool" where
  "is_space c = (c \<in> set [CHR 0x09, CHR 0x0A, CHR 0x0B, CHR 0x0C, CHR 0x0D, CHR 0x20, CHR 0xA0])"

definition trim :: "string \<Rightarrow> string" where
  "trim s = rev (dropWhile is_space (rev (dropWhile is_space s)))"

text \<open>
  \<open>parseMessage\<close>. \<open>JSON.parse\<close> is the run time's: a function from the line to the value
  or to the \<open>SyntaxError\<close> it throws. An \<open>MCPError\<close> leaves the \<open>catch\<close> as it is, any
  other error as a \<open>PARSE_ERROR\<close>. The result \<open>Inr request\<close> is the \<open>message\<close> event emitted
  (its listeners, as for the socket transport, do not throw).
\<close>

definition parseMessage :: "(string \<Rightarrow> thrown + json) \<Rightarrow> string \<Rightarrow> thrown + JSONRPCRequest" where
  "parseMessage JSON_parse line =
     (case
        and_then (JSON_parse line) (\<lambda>message.
        and_then (getProp (Some message) ''jsonrpc'') (\<lambda>jsonrpc.
          if jsonrpc \<noteq> Some (JStr ''2.0'') then
            Inl (Thrown_MCPError (MCPError INVALID_REQUEST ''Invalid JSON-RPC version'' None))
          else
            and_then (getProp (Some message) ''method'') (\<lambda>m.
              case m of
                Some (JStr s) \<Rightarrow>
                  if \<not> truthy m then
                    Inl (Thrown_MCPError (MCPError INVALID_REQUEST ''Missing or invalid method field'' None))
                  else as_JSONRPCRequest (Some message) s
              | _ \<Rightarrow>
                  Inl (Thrown_MCPError (MCPError INVALID_REQUEST ''Missing or invalid method field'' None)))))
      of
        Inr request \<Rightarrow> Inr request
      | Inl (Thrown_MCPError e) \<Rightarrow> Inl (Thrown_MCPError e)
      | Inl error \<Rightarrow>
          Inl (Thrown_MCPError (MCPError PARSE_ERROR (''Invalid JSON message: '' @ error_text error) None)))"

text \<open>
  The \<open>for\<close> loop of \<open>handleStdinData\<close>: the \<open>message\<close> events emitted, and the error that
  ended the loop, if one did. The loop stands inside the \<open>try\<close>, so a throw leaves it.
\<close>

fun parse_lines :: "(string \<Rightarrow> thrown + json) \<Rightarrow> string list \<Rightarrow> TransportEvent list \<times> thrown option" where
  "parse_lines JSON_parse [] = ([], None)"
| "parse_lines JSON_parse (line # rest) =
     (if trim line \<noteq> [] then
        (case parseMessage JSON_parse (trim line) of
           Inl error \<Rightarrow> ([], Some error)
         | Inr request \<Rightarrow>
             (case parse_lines JSON_parse rest of (evs, r) \<Rightarrow> (message_event request # evs, r)))
      else parse_lines JSON_parse rest)"

text \<open>
  \<open>handleStdinData\<close>, for the chunk that \<open>process.stdin.read()\<close> returned (\<open>None\<close> for
  \<open>null\<close>): the transport afterwards and the events emitted, in order.
\<close>

definition handleStdinData ::
  "(string \<Rightarrow> thrown + json) \<Rightarrow> string option \<Rightarrow> StdioTransport \<Rightarrow> StdioTransport \<times> TransportEvent list" where
  "handleStdinData JSON_parse chunk t =
     (case chunk of
        None \<Rightarrow> (t, [])
      | Some c \<Rightarrow>
          (case pop (split_on CHR 0x0A (messageBuffer t @ c)) of (lastLine, lines) \<Rightarrow>
             (let t' = t\<lparr>messageBuffer := (case lastLine of None \<Rightarrow> [] | Some l \<Rightarrow> l)\<rparr> in
              case parse_lines JSON_parse lines of
                (evs, None) \<Rightarrow> (t', evs)
              | (evs, Some error) \<Rightarrow>
                  (t', evs @ [error_event (MCPError PARSE_ERROR ''Failed to parse stdin data'' None)]))))"

definition stdio_send :: "wire \<Rightarrow> StdioTransport \<Rightarrow> thrown + StdioTransport" where
  "stdio_send msg t =
     (if \<not> stdio_connected t then
        Inl (Thrown_MCPError (MCPError TRANSPORT_ERROR ''Stdio transport not connected'' None))
      else
        (case write_throws t of
           Some m \<Rightarrow>
             Inl (Thrown_MCPError (MCPError TRANSPORT_ERROR ''Failed to send stdio message''
               (Some (JObj [(''originalError'', JObj [(''message'', JStr m)])]))))
         | None \<Rightarrow> Inr (t\<lparr>stdout := stdout t @ [msg]\<rparr>)))"

definition stdio_isConnected :: "StdioTransport \<Rightarrow> bool" where
  "stdio_isConnected t = stdio_connected t"

subsection \<open>The interface MCPTransport and the transport manager\<close>

datatype MCPTransport = WebSocket WebSocketTransport | Stdio StdioTransport

fun isConnected :: "MCPTransport \<Rightarrow> bool" where
  "isConnected (WebSocket t) = ws_isConnected t"
| "isConnected (Stdio t) = stdio_isConnected t"

fun send :: "wire \<Rightarrow> MCPTransport \<Rightarrow> thrown + MCPTransport" where
  "send msg (WebSocket t) = (case ws_send msg t of Inl e \<Rightarrow> Inl e | Inr t' \<Rightarrow> Inr (WebSocket t'))"
| "send msg (Stdio t) = (case stdio_send msg t of Inl e \<Rightarrow> Inl e | Inr t' \<Rightarrow> Inr (Stdio t'))"

text \<open>The messages a transport has handed to its channel.\<close>

fun delivered :: "MCPTransport \<Rightarrow> wire list" where
  "delivered (WebSocket t) = emitted (socket t)"
| "delivered (Stdio t) = stdout t"

text \<open>
  \<open>MCPTransportManager\<close>: its \<open>Map\<close> from connection id to transport, in insertion order,
  and the error lines it has logged.
\<close>

record MCPTransportManager =
  transports :: "(string \<times> MCPTransport) list"
  logged :: "(string \<times> string) list"

text \<open>
  One callback of the \<open>map\<close> in \<open>broadcast\<close>: how its promise settles, the transport
  afterwards and what it logs. The \<open>try\<close> covers \<open>isConnected\<close> and \<open>send\<close>.
\<close>

definition broadcast_one ::
  "JSONRPCNotification \<Rightarrow> string \<times> MCPTransport \<Rightarrow> (thrown + unit) \<times> (string \<times> MCPTransport) \<times> (string \<times> string) list" where
  "broadcast_one msg entry =
     (case entry of (tid, transport) \<Rightarrow>
        (case (if isConnected transport then send (Notification msg) transport else Inr transport) of
           Inr transport' \<Rightarrow> (Inr (), (tid, transport'), [])
         | Inl error \<Rightarrow> (Inr (), (tid, transport), [(tid, error_text error)])))"

text \<open>\<open>Promise.allSettled\<close> fulfils with the outcomes, whatever they are.\<close>

definition allSettled :: "(thrown + 'a) list \<Rightarrow> thrown + (thrown + 'a) list" where
  "allSettled promises = Inr promises"

definition broadcast :: "JSONRPCNotification \<Rightarrow> MCPTransportManager \<Rightarrow> (thrown + unit) \<times> MCPTransportManager" where
  "broadcast msg mgr =
     (let settled = map (broadcast_one msg) (transports mgr);
          mgr' = mgr\<lparr>transports := map (\<lambda>r. fst (snd r)) settled,
                      logged := logged mgr @ concat (map (\<lambda>r. snd (snd r)) settled)\<rparr>
      in (case allSettled (map fst settled) of Inl e \<Rightarrow> Inl e | Inr outcomes \<Rightarrow> Inr (), mgr'))"

section \<open>The server's message listener (server.ts, setupSocketIO)\<close>

text \<open>
  The listener of a transport's \<open>message\<close> event: dispatch, then send the response on
  the same transport. A failure is logged. It returns the transport afterwards and the
  log lines.
\<close>

definition on_transport_message ::
  "string option \<Rightarrow> MCPHandlerRegistry \<Rightarrow> JSONRPCRequest \<Rightarrow> WebSocketTransport \<Rightarrow> WebSocketTransport \<times> string list" where
  "on_transport_message NODE_ENV reg msg transport =
     (let response = handleRequest NODE_ENV reg msg in
      case ws_send (Response response) transport of
        Inr transport' \<Rightarrow> (transport', [])
      | Inl error \<Rightarrow> (transport, [error_text error]))"

text \<open>A payload arriving on the socket of a connection: the transport emits, the listener runs.\<close>

definition connection_receive ::
  "string option \<Rightarrow> MCPHandlerRegistry \<Rightarrow> json option \<Rightarrow> WebSocketTransport \<Rightarrow> WebSocketTransport \<times> string list" where
  "connection_receive NODE_ENV reg data transport =
     (case on_socket_message data of
        message_event msg \<Rightarrow> on_transport_message NODE_ENV reg msg transport
      | _ \<Rightarrow> (transport, []))"

section \<open>Example values\<close>

text \<open>
  The values at which the general statements below are instantiated. \<open>accepting\<close> stands
  for a Joi schema on params that satisfy it: no error, the value returned as it came.
\<close>

definition accepting :: ObjectSchema where
  "accepting params = (None, params)"

text \<open>A tool set for examples that call no tool.\<close>

definition unused_tools :: tools where
  "unused_tools =
     \<lparr>getCareerInitiatives = (\<lambda>args. Inl (Thrown_JsError ''not configured'')),
      getAchievements = (\<lambda>args. Inl (Thrown_JsError ''not configured'')),
      getTasks = (\<lambda>args. Inl (Thrown_JsError ''not configured'')),
      searchCareerData = (\<lambda>args. Inl (Thrown_JsError ''not configured'')),
      getSkillAnalysis = (\<lambda>args. Inl (Thrown_JsError ''not configured''))\<rparr>"

definition empty_registry :: MCPHandlerRegistry where
  "empty_registry = \<lparr>handlers = Map.empty\<rparr>"

definition example_registry :: MCPHandlerRegistry where
  "example_registry =
     snd (register (ToolsCallHandler accepting unused_tools)
       (snd (register InitializedHandler empty_registry)))"

definition unknown_tool_request :: JSONRPCRequest where
  "unknown_tool_request =
     \<lparr>req_jsonrpc = Some (JStr ''2.0''), req_id = Some (JNum 3), req_method = ''tools/call'',
      req_params = Some (JObj [(''name'', JStr ''no_such_tool'')])\<rparr>"

definition unknown_method_request :: JSONRPCRequest where
  "unknown_method_request =
     \<lparr>req_jsonrpc = Some (JStr ''2.0''), req_id = Some (JNum 4), req_method = ''prompts/list'',
      req_params = None\<rparr>"

definition old_version_request :: "string \<Rightarrow> JSONRPCRequest" where
  "old_version_request m =
     \<lparr>req_jsonrpc = Some (JStr ''1.0''), req_id = Some (JNum 5), req_method = m,
      req_params = None\<rparr>"

definition old_version_payload :: json where
  "old_version_payload =
     JObj [(''jsonrpc'', JStr ''1.0''), (''id'', JNum 1), (''method'', JStr ''tools/list'')]"

definition initialized_notification :: json where
  "initialized_notification = JObj [(''jsonrpc'', JStr ''2.0''), (''method'', JStr ''initialized'')]"

definition example_info :: serverInfo where
  "example_info = \<lparr>si_name = ''mcp-career-intelligence-server'', si_version = ''1.0.0''\<rparr>"

definition initialize_params :: "string \<Rightarrow> json \<Rightarrow> json" where
  "initialize_params version caps =
     JObj [(''protocolVersion'', JStr version), (''capabilities'', caps),
           (''clientInfo'', JObj [(''name'', JStr ''client''), (''version'', JStr ''0.1'')])]"

definition initialize_request :: "string \<Rightarrow> json \<Rightarrow> JSONRPCRequest" where
  "initialize_request version caps =
     \<lparr>req_jsonrpc = Some (JStr ''2.0''), req_id = Some (JNum 1), req_method = ''initialize'',
      req_params = Some (initialize_params version caps)\<rparr>"

definition open_socket :: WebSocketTransport where
  "open_socket =
     \<lparr>socket = \<lparr>socket_connected = True, emit_throws = None, emitted = []\<rparr>, connected = True\<rparr>"

definition working :: MCPTransport where
  "working = WebSocket open_socket"

definition disconnected :: MCPTransport where
  "disconnected =
     WebSocket \<lparr>socket = \<lparr>socket_connected = False, emit_throws = None, emitted = []\<rparr>,
                connected = False\<rparr>"

definition failing :: MCPTransport where
  "failing =
     WebSocket \<lparr>socket = \<lparr>socket_connected = True, emit_throws = Some ''socket closed'', emitted = []\<rparr>,
                connected = True\<rparr>"

definition example_manager :: MCPTransportManager where
  "example_manager =
     \<lparr>transports = [(''a'', working), (''b'', disconnected), (''c'', failing), (''d'', working)],
      logged = []\<rparr>"

definition list_changed :: JSONRPCNotification where
  "list_changed =
     \<lparr>ntf_jsonrpc = ''2.0'', ntf_method = ''notifications/tools/list_changed'', ntf_params = None\<rparr>"

definition idle_stdio :: StdioTransport where
  "idle_stdio = \<lparr>stdio_connected = True, messageBuffer = [], write_throws = None, stdout = []\<rparr>"

text \<open>
  \<open>JSON.parse\<close> on the lines of the stdio example: the request line parses to its object,
  and \<open>oops\<close> (here, like any other line) is a syntax error.
\<close>

definition tools_list_line :: string where
  "tools_list_line = ''{\"jsonrpc\":\"2.0\",\"id\":1,\"method\":\"tools/list\"}''"

definition example_JSON_parse :: "string \<Rightarrow> thrown + json" where
  "example_JSON_parse s =
     (if s = tools_list_line then
        Inr (JObj [(''jsonrpc'', JStr ''2.0''), (''id'', JNum 1), (''method'', JStr ''tools/list'')])
      else Inl (Thrown_JsError ''Unexpected token o in JSON at position 0''))"

section \<open>The handler contract and the registry\<close>

lemma handle_echoes_id: "res_id (handle env h r) = req_id r"
  by (simp add: handle_def Let_def split: sum.splits thrown.splits)

text \<open>
  C1. Every response of \<open>handle\<close> and of \<open>handleRequest\<close> carries the id of its request,
  and exactly one of \<open>result\<close> and \<open>error\<close>: when the three stages succeed the result is
  theirs and there is no error, and when a stage throws there is an error and no result.
  The dispatcher answers a method without a handler with an error and no result, and
  otherwise with the response of the handler it found.
\<close>

theorem response_echoes_id_and_has_result_xor_error:
  "res_id (handle env h r) = req_id r
   \<and> (case pipeline h r of
        Inr v \<Rightarrow> res_result (handle env h r) = Some v \<and> res_error (handle env h r) = None
      | Inl e \<Rightarrow> res_result (handle env h r) = None \<and> res_error (handle env h r) \<noteq> None)
   \<and> res_id (handleRequest env reg r) = req_id r
   \<and> ((res_result (handleRequest env reg r) = None) = (res_error (handleRequest env reg r) \<noteq> None))
   \<and> (case getHandler reg (req_method r) of
        None \<Rightarrow>
          res_result (handleRequest env reg r) = None \<and> res_error (handleRequest env reg r) \<noteq> None
      | Some handler \<Rightarrow>
          handleRequest env reg r = handle env handler r
          \<and> (case pipeline handler r of
                Inr v \<Rightarrow>
                  res_result (handleRequest env reg r) = Some v
                  \<and> res_error (handleRequest env reg r) = None
              | Inl e \<Rightarrow>
                  res_result (handleRequest env reg r) = None
                  \<and> res_error (handleRequest env reg r) \<noteq> None))"
proof -
  have a: "res_id (handle env h r) = req_id r"
    by (rule handle_echoes_id)
  have b: "case pipeline h r of
        Inr v \<Rightarrow> res_result (handle env h r) = Some v \<and> res_error (handle env h r) = None
      | Inl e \<Rightarrow> res_result (handle env h r) = None \<and> res_error (handle env h r) \<noteq> None"
    by (simp add: handle_def Let_def split: sum.splits thrown.splits)
  have c: "res_id (handleRequest env reg r) = req_id r"
    by (simp add: handleRequest_def handle_echoes_id split: option.splits)
  have d: "(res_result (handleRequest env reg r) = None) = (res_error (handleRequest env reg r) \<noteq> None)"
    by (simp add: handleRequest_def handle_def Let_def split: option.splits sum.splits thrown.splits)
  have e: "case getHandler reg (req_method r) of
        None \<Rightarrow>
          res_result (handleRequest env reg r) = None \<and> res_error (handleRequest env reg r) \<noteq> None
      | Some handler \<Rightarrow>
          handleRequest env reg r = handle env handler r
          \<and> (case pipeline handler r of
                Inr v \<Rightarrow>
                  res_result (handleRequest env reg r) = Some v
                  \<and> res_error (handleRequest env reg r) = None
              | Inl e \<Rightarrow>
                  res_result (handleRequest env reg r) = None
                  \<and> res_error (handleRequest env reg r) \<noteq> None)"
    by (simp add: handleRequest_def handle_def Let_def split: option.splits sum.splits thrown.splits)
  from a b c d e show ?thesis by simp
qed

lemma example_registry_handlers:
  "handlers example_registry =
     [''initialized'' \<mapsto> InitializedHandler, ''tools/call'' \<mapsto> ToolsCallHandler accepting unused_tools]"
  by (simp add: example_registry_def empty_registry_def register_def InitializedHandler_def
      ToolsCallHandler_def)

text \<open>
  C2. A request whose method has no handler is answered by \<open>handleRequest\<close>
  with the error \<open>METHOD_NOT_FOUND\<close> (-32601), the request id and no result; the function
  is total, so nothing is thrown.
\<close>

theorem unknown_method_gives_MethodNotFound:
  "getHandler reg (req_method r) = None \<Longrightarrow>
     handleRequest env reg r =
       \<lparr>res_jsonrpc = ''2.0'', res_id = req_id r, res_result = None,
        res_error = Some \<lparr>err_code = -32601,
          err_message = ''Method '' @ apostrophe @ req_method r @ apostrophe @ '' not found'', err_data = None\<rparr>\<rparr>"
  by (simp add: handleRequest_def)

theorem unknown_method_gives_MethodNotFound_witness:
  "handleRequest None example_registry unknown_method_request =
     \<lparr>res_jsonrpc = ''2.0'', res_id = Some (JNum 4), res_result = None,
      res_error = Some \<lparr>err_code = -32601,
        err_message = ''Method '' @ apostrophe @ ''prompts/list'' @ apostrophe @ '' not found'', err_data = None\<rparr>\<rparr>"
  using unknown_method_gives_MethodNotFound [of example_registry unknown_method_request None]
  by (simp add: getHandler_def example_registry_handlers unknown_method_request_def)

text \<open>
  The lookup is not the only origin of that code: \<open>tools/call\<close> is registered, and its
  handler answers a call of a tool it does not know with -32601 as well.
\<close>

theorem registered_method_gives_MethodNotFound:
  "getHandler example_registry (req_method unknown_tool_request) \<noteq> None
   \<and> res_error (handleRequest None example_registry unknown_tool_request) =
       Some \<lparr>err_code = -32601, err_message = ''Unknown tool: no_such_tool'', err_data = None\<rparr>"
  by (simp add: handleRequest_def getHandler_def example_registry_handlers unknown_tool_request_def
      handle_def pipeline_def validateRequest_def validateParams_def and_then_def
      ToolsCallHandler_def ToolsCallHandler_execute_def call_tool_def createError_def
      accepting_def to_String_def)

text \<open>
  C6. A request whose \<open>jsonrpc\<close> is not \<open>"2.0"\<close> is answered by every handler
  with \<open>INVALID_REQUEST\<close> (-32600), whatever else it holds, and by \<open>handleRequest\<close> too when
  its method has a handler.
\<close>

theorem wrong_version_gives_InvalidRequest:
  "req_jsonrpc r \<noteq> Some (JStr ''2.0'') \<Longrightarrow>
     handle env h r =
       \<lparr>res_jsonrpc = ''2.0'', res_id = req_id r, res_result = None,
        res_error = Some \<lparr>err_code = -32600, err_message = ''Invalid JSON-RPC version'',
          err_data = None\<rparr>\<rparr>
     \<and> (getHandler reg (req_method r) = Some h \<longrightarrow>
          handleRequest env reg r =
            \<lparr>res_jsonrpc = ''2.0'', res_id = req_id r, res_result = None,
             res_error = Some \<lparr>err_code = -32600, err_message = ''Invalid JSON-RPC version'',
               err_data = None\<rparr>\<rparr>)"
  by (simp add: handle_def handleRequest_def pipeline_def validateRequest_def and_then_def)

theorem wrong_version_gives_InvalidRequest_witness:
  "handleRequest None example_registry (old_version_request ''initialized'') =
     \<lparr>res_jsonrpc = ''2.0'', res_id = Some (JNum 5), res_result = None,
      res_error = Some \<lparr>err_code = -32600, err_message = ''Invalid JSON-RPC version'',
        err_data = None\<rparr>\<rparr>"
  using wrong_version_gives_InvalidRequest
    [of "old_version_request ''initialized''" None InitializedHandler example_registry]
  by (simp add: getHandler_def example_registry_handlers old_version_request_def)

text \<open>With no handler for its method, such a request is answered with -32601 instead.\<close>

theorem wrong_version_unknown_method_gives_MethodNotFound:
  "req_jsonrpc (old_version_request ''prompts/list'') \<noteq> Some (JStr ''2.0'')
   \<and> map_option err_code (res_error (handleRequest None example_registry
         (old_version_request ''prompts/list''))) = Some (-32601)"
  by (simp add: handleRequest_def getHandler_def example_registry_handlers old_version_request_def)

text \<open>
  C9. When a method is bound already, registering another handler under it throws, the
  registry is what it was, and the first handler is still the one bound.
\<close>

theorem register_duplicate_rejected:
  "getHandler reg m = Some h1 \<Longrightarrow> handler_method h2 = m \<Longrightarrow>
     (\<exists>e. fst (register h2 reg) = Inl (Thrown_JsError e))
     \<and> snd (register h2 reg) = reg
     \<and> getHandler (snd (register h2 reg)) m = Some h1"
  by (auto simp: register_def getHandler_def)

theorem register_duplicate_rejected_witness:
  "(\<exists>e. fst (register (ToolsCallHandler accepting unused_tools) example_registry)
          = Inl (Thrown_JsError e))
   \<and> snd (register (ToolsCallHandler accepting unused_tools) example_registry) = example_registry"
  using register_duplicate_rejected [of example_registry "''tools/call''"
      "ToolsCallHandler accepting unused_tools" "ToolsCallHandler accepting unused_tools"]
  by (simp add: getHandler_def example_registry_handlers ToolsCallHandler_def)

section \<open>The handshake\<close>

text \<open>
  Facts about the validation of the keys of an object schema: a converted value is put
  under its key, a key the schema does not name keeps its value, and each named key ends
  with the validated value of what it held.
\<close>

lemma map_of_assign: "map_of (assign k v kvs) = (map_of kvs)(k \<mapsto> v)"
  by (induction kvs) auto

lemma joi_validate_defined:
  "joi_validate s path (Some x) = Inr r \<Longrightarrow> \<exists>y. r = Some y"
  by (cases s) (auto split: json.splits option.splits sum.splits list.splits if_splits)

lemma joi_validate_undefined:
  "joi_validate s path None = Inr r \<Longrightarrow> r = None \<and> presence_of s = optional"
  by (cases "presence_of s") (auto split: if_splits)

lemma joi_keys_others:
  "joi_keys ks path kvs = Inr kvs' \<Longrightarrow> k \<notin> set (map fst ks) \<Longrightarrow> map_of kvs' k = map_of kvs k"
proof (induction ks arbitrary: kvs)
  case Nil
  then show ?case by simp
next
  case (Cons a ks)
  obtain k0 s0 where a: "a = (k0, s0)" by (cases a)
  from Cons.prems a have ne: "k \<noteq> k0" and rest: "k \<notin> set (map fst ks)" by auto
  show ?case
  proof (cases "joi_validate s0 (path @ [k0]) (map_of kvs k0)")
    case (Inl e)
    with Cons.prems a show ?thesis by simp
  next
    case (Inr r)
    show ?thesis
    proof (cases r)
      case None
      with Inr Cons.prems a have "joi_keys ks path kvs = Inr kvs'" by simp
      from Cons.IH [OF this rest] show ?thesis .
    next
      case (Some v')
      with Inr Cons.prems a have "joi_keys ks path (assign k0 v' kvs) = Inr kvs'" by simp
      from Cons.IH [OF this rest] ne show ?thesis by (simp add: map_of_assign)
    qed
  qed
qed

lemma joi_keys_validated:
  "joi_keys ks path kvs = Inr kvs' \<Longrightarrow> distinct (map fst ks) \<Longrightarrow> (k, s) \<in> set ks \<Longrightarrow>
     joi_validate s (path @ [k]) (map_of kvs k) = Inr (map_of kvs' k)"
proof (induction ks arbitrary: kvs)
  case Nil
  then show ?case by simp
next
  case (Cons a ks)
  obtain k0 s0 where a: "a = (k0, s0)" by (cases a)
  from Cons.prems a have d: "distinct (map fst ks)" and fresh: "k0 \<notin> set (map fst ks)" by auto
  show ?case
  proof (cases "joi_validate s0 (path @ [k0]) (map_of kvs k0)")
    case (Inl e)
    with Cons.prems a show ?thesis by simp
  next
    case (Inr r)
    define kvs1 where "kvs1 = (case r of None \<Rightarrow> kvs | Some v' \<Rightarrow> assign k0 v' kvs)"
    have rest: "joi_keys ks path kvs1 = Inr kvs'"
      using Inr Cons.prems(1) a by (cases r) (simp_all add: kvs1_def)
    have at_k0: "map_of kvs1 k0 = r"
    proof (cases r)
      case None
      then have "map_of kvs k0 = None"
        using Inr joi_validate_defined [of s0 "path @ [k0]" _ r] by (cases "map_of kvs k0") auto
      with None show ?thesis by (simp add: kvs1_def)
    next
      case (Some v')
      then show ?thesis by (simp add: kvs1_def map_of_assign)
    qed
    have other: "map_of kvs1 k' = map_of kvs k'" if "k' \<noteq> k0" for k'
      using that by (cases r) (simp_all add: kvs1_def map_of_assign)
    show ?thesis
    proof (cases "(k, s) = (k0, s0)")
      case True
      have "map_of kvs' k0 = map_of kvs1 k0"
        using joi_keys_others [OF rest fresh] .
      with True Inr at_k0 show ?thesis by simp
    next
      case False
      with Cons.prems(3) a have mem: "(k, s) \<in> set ks" by auto
      then have "k \<in> set (map fst ks)" by force
      with fresh have "k \<noteq> k0" by auto
      from Cons.IH [OF rest d mem] other [OF this] show ?thesis by simp
    qed
  qed
qed

lemma joi_object_accepts:
  "joi_validate (Joi_object p (Some ks)) path (Some x) = Inr v \<Longrightarrow>
     \<exists>kvs kvs'. x = JObj kvs \<and> joi_keys ks path kvs = Inr kvs' \<and> v = Some (JObj kvs')"
  by (cases x) (auto split: sum.splits list.splits)

text \<open>What the schema of \<open>initialize\<close> lets through.\<close>

lemma initialize_schema_accepts:
  assumes "joi_validate InitializeHandler_getParamsSchema [] (Some p) = Inr v"
  shows "\<exists>kvs kvs' pv ci.
           p = JObj kvs \<and> v = Some (JObj kvs')
           \<and> map_of kvs ''protocolVersion'' = Some (JStr pv)
           \<and> map_of kvs' ''protocolVersion'' = Some (JStr pv)
           \<and> map_of kvs' ''clientInfo'' = Some (JObj ci)"
proof -
  let ?ci = "Joi_object required (Some
           [(''name'', Joi_string required), (''version'', Joi_string required)])"
  obtain ks where schema: "InitializeHandler_getParamsSchema = Joi_object optional (Some ks)"
    and version: "(''protocolVersion'', Joi_string required) \<in> set ks"
    and client: "(''clientInfo'', ?ci) \<in> set ks"
    and dist: "distinct (map fst ks)"
    by (simp add: InitializeHandler_getParamsSchema_def)
  from assms obtain kvs kvs' where p: "p = JObj kvs" and keys: "joi_keys ks [] kvs = Inr kvs'"
    and v: "v = Some (JObj kvs')"
    unfolding schema using joi_object_accepts by blast
  have "joi_validate (Joi_string required) ([] @ [''protocolVersion'']) (map_of kvs ''protocolVersion'')
      = Inr (map_of kvs' ''protocolVersion'')"
    using keys dist version by (rule joi_keys_validated)
  then obtain pv where pv: "map_of kvs ''protocolVersion'' = Some (JStr pv)"
    "map_of kvs' ''protocolVersion'' = Some (JStr pv)"
    by (cases "map_of kvs ''protocolVersion''") (auto split: json.splits if_splits)
  have c: "joi_validate ?ci ([] @ [''clientInfo'']) (map_of kvs ''clientInfo'')
      = Inr (map_of kvs' ''clientInfo'')"
    using keys dist client by (rule joi_keys_validated)
  obtain ci where ci: "map_of kvs' ''clientInfo'' = Some (JObj ci)"
  proof (cases "map_of kvs ''clientInfo''")
    case None
    with c joi_validate_undefined [of ?ci "[] @ [''clientInfo'']" "map_of kvs' ''clientInfo''"]
    show ?thesis by simp
  next
    case (Some x)
    from c have "joi_validate ?ci ([] @ [''clientInfo'']) (Some x) = Inr (map_of kvs' ''clientInfo'')"
      unfolding Some .
    from joi_object_accepts [OF this] obtain c' where "map_of kvs' ''clientInfo'' = Some (JObj c')"
      by blast
    then show ?thesis by (rule that)
  qed
  from p v pv ci show ?thesis by blast
qed

text \<open>
  What the three stages give for an \<open>initialize\<close> request with params that the schema
  accepts.
\<close>

lemma initialize_pipeline:
  assumes "req_jsonrpc r = Some (JStr ''2.0'')" and "req_method r = ''initialize''"
    and "req_params r = Some p"
    and "joi_validate InitializeHandler_getParamsSchema [] (Some p) = Inr v"
    and "getProp (Some p) ''protocolVersion'' = Inr pv"
  shows "pipeline (InitializeHandler info) r =
     (if \<not> isProtocolVersionSupported pv then
        Inl (createError INITIALIZATION_FAILED
          (''Unsupported protocol version: '' @ to_String pv @ ''. Supported versions: 2024-11-05'')
          (Some (JObj [(''supportedVersions'', JArr [JStr ''2024-11-05''])])))
      else
        Inr (JObj
          [(''protocolVersion'', JStr ''2024-11-05''),
           (''capabilities'', serverCapabilities),
           (''serverInfo'', JObj [(''name'', JStr (si_name info)), (''version'', JStr (si_version info))]),
           (''instructions'', JStr getServerInstructions)]))"
proof -
  from initialize_schema_accepts [OF assms(4)] obtain kvs kvs' s ci where
    p: "p = JObj kvs" and v: "v = Some (JObj kvs')"
    and s: "map_of kvs ''protocolVersion'' = Some (JStr s)"
      "map_of kvs' ''protocolVersion'' = Some (JStr s)"
    and ci: "map_of kvs' ''clientInfo'' = Some (JObj ci)"
    by blast
  from assms(5) p s have pv: "pv = Some (JStr s)" by simp
  show ?thesis
    using assms(1-4) v s ci pv
    by (simp add: pipeline_def validateRequest_def validateParams_def InitializeHandler_def
        validate_def InitializeHandler_execute_def and_then_def)
qed

text \<open>
  The schema accepts the params of the examples.
\<close>

lemma accepted_example:
  "version \<noteq> [] \<Longrightarrow> joi_validate InitializeHandler_getParamsSchema [] (Some (initialize_params version (JObj [])))
     = Inr (Some (initialize_params version (JObj [])))"
  by (simp add: InitializeHandler_getParamsSchema_def initialize_params_def)

lemma accepted_tools:
  "version \<noteq> [] \<Longrightarrow> joi_validate InitializeHandler_getParamsSchema []
       (Some (initialize_params version (JObj [(''tools'', JObj [(''listChanged'', JBool True)])])))
     = Inr (Some (initialize_params version (JObj [(''tools'', JObj [(''listChanged'', JBool True)])])))"
  by (simp add: InitializeHandler_getParamsSchema_def initialize_params_def boolean_coerce_def)

text \<open>
  C7. An \<open>initialize\<close> request with \<open>jsonrpc\<close> \<open>"2.0"\<close> whose params the schema accepts
  and which carries a supported protocol version is answered with a result and no error;
  the result's \<open>protocolVersion\<close> is the version requested and its \<open>capabilities\<close> the
  server's fixed set; and any second such request, whatever capabilities its client
  declares, gets the same result.
\<close>

theorem initialize_supported_version:
  assumes "req_jsonrpc r = Some (JStr ''2.0'')" and "req_method r = ''initialize''"
    and "req_params r = Some p"
    and "joi_validate InitializeHandler_getParamsSchema [] (Some p) = Inr v"
    and "getProp (Some p) ''protocolVersion'' = Inr pv" and "isProtocolVersionSupported pv"
    and "req_jsonrpc r' = Some (JStr ''2.0'')" and "req_method r' = ''initialize''"
    and "req_params r' = Some p'"
    and "joi_validate InitializeHandler_getParamsSchema [] (Some p') = Inr v'"
    and "getProp (Some p') ''protocolVersion'' = Inr pv"
  shows "res_error (handle env (InitializeHandler info) r) = None
    \<and> (\<exists>result. res_result (handle env (InitializeHandler info) r) = Some result
          \<and> getProp (Some result) ''protocolVersion'' = Inr pv
          \<and> getProp (Some result) ''capabilities'' = Inr (Some serverCapabilities))
    \<and> res_result (handle env (InitializeHandler info) r')
        = res_result (handle env (InitializeHandler info) r)"
proof -
  let ?ok = "Inr (JObj
          [(''protocolVersion'', JStr ''2024-11-05''),
           (''capabilities'', serverCapabilities),
           (''serverInfo'', JObj [(''name'', JStr (si_name info)), (''version'', JStr (si_version info))]),
           (''instructions'', JStr getServerInstructions)])"
  have "pipeline (InitializeHandler info) r = ?ok"
    using initialize_pipeline [OF assms(1-5)] assms(6) by simp
  moreover have "pipeline (InitializeHandler info) r' = ?ok"
    using initialize_pipeline [OF assms(7-11)] assms(6) by simp
  moreover have "pv = Some (JStr ''2024-11-05'')"
    using assms(6) by (simp add: isProtocolVersionSupported_def supportedVersions_def)
  ultimately show ?thesis
    by (simp add: handle_def Let_def)
qed

theorem initialize_supported_version_witness:
  "res_error (handle None (InitializeHandler example_info)
      (initialize_request ''2024-11-05'' (JObj []))) = None
   \<and> res_result (handle None (InitializeHandler example_info)
      (initialize_request ''2024-11-05'' (JObj [(''tools'', JObj [(''listChanged'', JBool True)])])))
     = res_result (handle None (InitializeHandler example_info)
      (initialize_request ''2024-11-05'' (JObj [])))"
proof -
  let ?caps = "JObj [(''tools'', JObj [(''listChanged'', JBool True)])]"
  have a: "joi_validate InitializeHandler_getParamsSchema [] (Some (initialize_params ''2024-11-05'' (JObj [])))
      = Inr (Some (initialize_params ''2024-11-05'' (JObj [])))"
    by (simp add: accepted_example)
  have a': "joi_validate InitializeHandler_getParamsSchema [] (Some (initialize_params ''2024-11-05'' ?caps))
      = Inr (Some (initialize_params ''2024-11-05'' ?caps))"
    by (simp add: accepted_tools)
  have b: "getProp (Some (initialize_params ''2024-11-05'' caps)) ''protocolVersion'' = Inr (Some (JStr ''2024-11-05''))" for caps
    by (simp add: initialize_params_def)
  have c: "isProtocolVersionSupported (Some (JStr ''2024-11-05''))"
    by (simp add: isProtocolVersionSupported_def supportedVersions_def)
  have d: "req_jsonrpc (initialize_request ''2024-11-05'' caps) = Some (JStr ''2.0'')"
    "req_method (initialize_request ''2024-11-05'' caps) = ''initialize''"
    "req_params (initialize_request ''2024-11-05'' caps) = Some (initialize_params ''2024-11-05'' caps)" for caps
    by (simp_all add: initialize_request_def)
  from initialize_supported_version [OF d a b c d a' b, of None example_info] show ?thesis by simp
qed

text \<open>
  Capabilities the schema does not accept change the answer: with the supported version
  and the capabilities \<open>{}\<close> the request gets a result, with the capabilities
  \<open>{"elicitation": {}}\<close> it gets the error \<open>INVALID_PARAMS\<close> (-32602) and no result.
\<close>

theorem initialize_capabilities_outside_schema_rejected:
  "res_error (handle None (InitializeHandler example_info)
       (initialize_request ''2024-11-05'' (JObj []))) = None
   \<and> res_result (handle None (InitializeHandler example_info)
       (initialize_request ''2024-11-05'' (JObj [(''elicitation'', JObj [])]))) = None
   \<and> map_option err_code (res_error (handle None (InitializeHandler example_info)
       (initialize_request ''2024-11-05'' (JObj [(''elicitation'', JObj [])])))) = Some (-32602)"
  by (simp add: handle_def pipeline_def validateRequest_def validateParams_def InitializeHandler_def
        validate_def InitializeHandler_execute_def and_then_def initialize_request_def
        InitializeHandler_getParamsSchema_def initialize_params_def report_def Let_def
        isProtocolVersionSupported_def supportedVersions_def)

text \<open>
  C8. An \<open>initialize\<close> request with \<open>jsonrpc\<close> \<open>"2.0"\<close> whose params the schema accepts
  and whose protocol version is not in the list of supported versions is answered with
  the error \<open>INITIALIZATION_FAILED\<close> (-32000), whose data is the list of supported
  versions, and with no result.
\<close>

theorem initialize_unsupported_version:
  assumes "req_jsonrpc r = Some (JStr ''2.0'')" and "req_method r = ''initialize''"
    and "req_params r = Some p"
    and "joi_validate InitializeHandler_getParamsSchema [] (Some p) = Inr v"
    and "getProp (Some p) ''protocolVersion'' = Inr pv" and "\<not> isProtocolVersionSupported pv"
  shows "res_result (handle env (InitializeHandler info) r) = None
    \<and> map_option err_code (res_error (handle env (InitializeHandler info) r)) = Some (-32000)
    \<and> map_option err_data (res_error (handle env (InitializeHandler info) r))
         = Some (Some (JObj [(''supportedVersions'', JArr (map JStr supportedVersions))]))"
proof -
  have "pipeline (InitializeHandler info) r =
     Inl (createError INITIALIZATION_FAILED
          (''Unsupported protocol version: '' @ to_String pv @ ''. Supported versions: 2024-11-05'')
          (Some (JObj [(''supportedVersions'', JArr [JStr ''2024-11-05''])])))"
    using initialize_pipeline [OF assms(1-5)] assms(6) by simp
  then show ?thesis
    by (simp add: handle_def Let_def createError_def supportedVersions_def)
qed

theorem initialize_unsupported_version_witness:
  "res_result (handle None (InitializeHandler example_info)
      (initialize_request ''2024-10-07'' (JObj []))) = None
   \<and> map_option err_code (res_error (handle None (InitializeHandler example_info)
      (initialize_request ''2024-10-07'' (JObj [])))) = Some (-32000)"
proof -
  have a: "joi_validate InitializeHandler_getParamsSchema [] (Some (initialize_params ''2024-10-07'' (JObj [])))
      = Inr (Some (initialize_params ''2024-10-07'' (JObj [])))"
    by (simp add: accepted_example)
  have b: "getProp (Some (initialize_params ''2024-10-07'' (JObj []))) ''protocolVersion'' = Inr (Some (JStr ''2024-10-07''))"
    by (simp add: initialize_params_def)
  have c: "\<not> isProtocolVersionSupported (Some (JStr ''2024-10-07''))"
    by (simp add: isProtocolVersionSupported_def supportedVersions_def)
  have d: "req_jsonrpc (initialize_request ''2024-10-07'' (JObj [])) = Some (JStr ''2.0'')"
    "req_method (initialize_request ''2024-10-07'' (JObj [])) = ''initialize''"
    "req_params (initialize_request ''2024-10-07'' (JObj [])) = Some (initialize_params ''2024-10-07'' (JObj []))"
    by (simp_all add: initialize_request_def)
  from initialize_unsupported_version [OF d a b c, of None example_info] show ?thesis by simp
qed

text \<open>
  The empty string is not a supported version, and the schema rejects it before the
  version is looked at: the answer is the error \<open>INVALID_PARAMS\<close> (-32602).
\<close>

theorem initialize_empty_version_gets_InvalidParams:
  "\<not> isProtocolVersionSupported (Some (JStr []))
   \<and> map_option err_code (res_error (handle None (InitializeHandler example_info)
       (initialize_request [] (JObj [])))) = Some (-32602)"
  by (simp add: handle_def pipeline_def validateRequest_def validateParams_def InitializeHandler_def
        validate_def and_then_def initialize_request_def
        InitializeHandler_getParamsSchema_def initialize_params_def report_def Let_def
        isProtocolVersionSupported_def supportedVersions_def)

text \<open>
  C4. An \<open>initialized\<close> message with \<open>jsonrpc\<close> \<open>"2.0"\<close> that arrives on a
  connected socket transport is dispatched to its handler and answered on that transport
  with one response: the result \<open>{}\<close>, no error and the id of the message (none when the
  message is a notification). Nothing is logged.
\<close>

theorem initialized_is_answered:
  assumes "getHandler reg ''initialized'' = Some InitializedHandler"
    and "req_method msg = ''initialized''" and "req_jsonrpc msg = Some (JStr ''2.0'')"
    and "connected t" and "emit_throws (socket t) = None"
  shows "emitted (socket (fst (on_transport_message env reg msg t)))
       = emitted (socket t)
           @ [Response \<lparr>res_jsonrpc = ''2.0'', res_id = req_id msg, res_result = Some (JObj []),
                res_error = None\<rparr>]
     \<and> snd (on_transport_message env reg msg t) = []"
  using assms
  by (simp add: on_transport_message_def handleRequest_def handle_def pipeline_def
      validateRequest_def validateParams_def and_then_def InitializedHandler_def ws_send_def Let_def)

theorem initialized_is_answered_witness:
  "emitted (socket (fst (on_transport_message None example_registry
       \<lparr>req_jsonrpc = Some (JStr ''2.0''), req_id = Some (JNum 2), req_method = ''initialized'',
        req_params = None\<rparr> open_socket)))
     = [Response \<lparr>res_jsonrpc = ''2.0'', res_id = Some (JNum 2), res_result = Some (JObj []),
          res_error = None\<rparr>]"
  using initialized_is_answered [of example_registry
      "\<lparr>req_jsonrpc = Some (JStr ''2.0''), req_id = Some (JNum 2), req_method = ''initialized'',
        req_params = None\<rparr>" open_socket None]
  by (simp add: getHandler_def example_registry_handlers open_socket_def)

text \<open>
  The notification \<open>{"jsonrpc": "2.0", "method": "initialized"}\<close> arriving on an open
  socket: a response is emitted on the socket.
\<close>

theorem initialized_notification_gets_response:
  "emitted (socket (fst (connection_receive None example_registry (Some initialized_notification)
       open_socket)))
     = [Response \<lparr>res_jsonrpc = ''2.0'', res_id = None, res_result = Some (JObj []),
          res_error = None\<rparr>]"
  by (simp add: connection_receive_def on_socket_message_def handleMessage_def
      initialized_notification_def and_then_def as_JSONRPCRequest_def on_transport_message_def
      handleRequest_def getHandler_def example_registry_handlers handle_def pipeline_def
      validateRequest_def validateParams_def InitializedHandler_def ws_send_def open_socket_def
      Let_def)

section \<open>What the transports emit for a payload they reject\<close>

text \<open>The socket transport never emits an error of the kind \<open>INVALID_REQUEST\<close>.\<close>

lemma on_socket_message_error_kind:
  "on_socket_message payload = error_event e \<Longrightarrow>
     e = MCPError PARSE_ERROR ''Failed to parse incoming message'' None"
  by (auto simp: on_socket_message_def split: sum.splits)

text \<open>The loop of the stdio transport emits message events only.\<close>

lemma parse_lines_emits_messages:
  "ev \<in> set (fst (parse_lines JSON_parse ls)) \<Longrightarrow> \<exists>request. ev = message_event request"
proof (induction ls)
  case Nil
  then show ?case by simp
next
  case (Cons line rest)
  then show ?case
    by (auto split: if_splits sum.splits prod.splits)
qed

lemma handleStdinData_error_kind:
  assumes "error_event e \<in> set (snd (handleStdinData JSON_parse chunk t))"
  shows "e = MCPError PARSE_ERROR ''Failed to parse stdin data'' None"
proof (cases chunk)
  case None
  with assms show ?thesis by (simp add: handleStdinData_def)
next
  case (Some c)
  obtain lastLine lines where p: "pop (split_on CHR 0x0A (messageBuffer t @ c)) = (lastLine, lines)"
    by (cases "pop (split_on CHR 0x0A (messageBuffer t @ c))")
  obtain evs r where l: "parse_lines JSON_parse lines = (evs, r)"
    by (cases "parse_lines JSON_parse lines")
  have "error_event e \<notin> set evs"
    using parse_lines_emits_messages [of "error_event e" JSON_parse lines] l by auto
  with assms Some p l show ?thesis
    by (cases r) (auto simp: handleStdinData_def Let_def)
qed

text \<open>
  C3. The payload \<open>{"jsonrpc": "1.0", "id": 1, "method": "tools/list"}\<close> is a well-formed
  object that breaks the envelope invariant. \<open>handleMessage\<close> throws an \<open>INVALID_REQUEST\<close>
  for it, and the transport emits an error event of the kind \<open>PARSE_ERROR\<close>.
\<close>

theorem invalid_request_emitted_as_parse_error:
  "handleMessage (Some old_version_payload)
     = Inl (Thrown_MCPError (MCPError INVALID_REQUEST ''Invalid JSON-RPC version'' None))
   \<and> on_socket_message (Some old_version_payload)
     = error_event (MCPError PARSE_ERROR ''Failed to parse incoming message'' None)
   \<and> code_value PARSE_ERROR = -32700"
  by (simp add: on_socket_message_def handleMessage_def old_version_payload_def and_then_def)

text \<open>So the error that reaches the listeners is not the one the codec threw.\<close>

theorem invalid_request_emitted_as_parse_error_witness:
  "on_socket_message (Some old_version_payload)
     \<noteq> error_event (MCPError INVALID_REQUEST ''Invalid JSON-RPC version'' None)"
  using invalid_request_emitted_as_parse_error by simp

section \<open>The stdio transport's buffer\<close>

text \<open>A read keeps the transport connected and leaves the last, unterminated piece in the buffer.\<close>

lemma handleStdinData_keeps_connection:
  "stdio_connected (fst (handleStdinData JSON_parse chunk t)) = stdio_connected t"
  by (simp add: handleStdinData_def Let_def split: option.splits prod.splits)

lemma split_on_not_empty: "split_on sep s \<noteq> []"
  by (induction s) (auto split: list.splits)

lemma handleStdinData_buffer:
  "messageBuffer (fst (handleStdinData JSON_parse (Some c) t))
     = last (split_on CHR 0x0A (messageBuffer t @ c))"
proof -
  obtain x r where "rev (split_on CHR 0x0A (messageBuffer t @ c)) = x # r"
    using split_on_not_empty [of "CHR 0x0A" "messageBuffer t @ c"]
    by (cases "rev (split_on CHR 0x0A (messageBuffer t @ c))") auto
  moreover from this have "last (split_on CHR 0x0A (messageBuffer t @ c)) = x"
    by (metis last_rev list.sel(1) rev_rev_ident)
  ultimately show ?thesis
    by (simp add: handleStdinData_def pop_def Let_def split: prod.splits option.splits)
qed

text \<open>A line that fails ends the loop: the lines after it are not looked at.\<close>

lemma parse_lines_stops_at_failure:
  "trim line \<noteq> [] \<Longrightarrow> parseMessage JSON_parse (trim line) = Inl error \<Longrightarrow>
     parse_lines JSON_parse (line # rest) = ([], Some error)"
  by simp

text \<open>
  C5. One read brings two complete lines, \<open>oops\<close> and a \<open>tools/list\<close> request. When
  \<open>JSON.parse\<close> rejects the first, the read emits the error event and nothing else: the
  request on the second line is not delivered, and the buffer is empty afterwards, so no
  later read delivers it either.
\<close>

theorem line_after_parse_failure_dropped:
  assumes "JSON_parse ''oops'' = Inl (Thrown_JsError e)"
  shows "handleStdinData JSON_parse (Some (''oops'' @ [CHR 0x0A] @ tools_list_line @ [CHR 0x0A])) idle_stdio
    = (idle_stdio, [error_event (MCPError PARSE_ERROR ''Failed to parse stdin data'' None)])"
  using assms
  by (simp add: handleStdinData_def idle_stdio_def tools_list_line_def pop_def trim_def
      is_space_def parseMessage_def and_then_def)

text \<open>The same request line alone in a read is delivered.\<close>

theorem line_after_parse_failure_dropped_witness:
  "handleStdinData example_JSON_parse
       (Some (''oops'' @ [CHR 0x0A] @ tools_list_line @ [CHR 0x0A])) idle_stdio
     = (idle_stdio, [error_event (MCPError PARSE_ERROR ''Failed to parse stdin data'' None)])
   \<and> handleStdinData example_JSON_parse (Some (tools_list_line @ [CHR 0x0A])) idle_stdio
     = (idle_stdio, [message_event \<lparr>req_jsonrpc = Some (JStr ''2.0''), req_id = Some (JNum 1),
          req_method = ''tools/list'', req_params = None\<rparr>])"
proof -
  have "example_JSON_parse ''oops'' = Inl (Thrown_JsError ''Unexpected token o in JSON at position 0'')"
    by (simp add: example_JSON_parse_def tools_list_line_def)
  then have "handleStdinData example_JSON_parse
       (Some (''oops'' @ [CHR 0x0A] @ tools_list_line @ [CHR 0x0A])) idle_stdio
     = (idle_stdio, [error_event (MCPError PARSE_ERROR ''Failed to parse stdin data'' None)])"
    by (rule line_after_parse_failure_dropped)
  moreover have "handleStdinData example_JSON_parse (Some (tools_list_line @ [CHR 0x0A])) idle_stdio
     = (idle_stdio, [message_event \<lparr>req_jsonrpc = Some (JStr ''2.0''), req_id = Some (JNum 1),
          req_method = ''tools/list'', req_params = None\<rparr>])"
    by (simp add: handleStdinData_def idle_stdio_def tools_list_line_def pop_def trim_def
        is_space_def parseMessage_def and_then_def example_JSON_parse_def as_JSONRPCRequest_def)
  ultimately show ?thesis by simp
qed

section \<open>Broadcast\<close>

lemma ws_send_delivers: "ws_send w t = Inr t' \<Longrightarrow> emitted (socket t') = emitted (socket t) @ [w]"
  by (auto simp: ws_send_def split: if_splits option.splits)

lemma stdio_send_delivers: "stdio_send w t = Inr t' \<Longrightarrow> stdout t' = stdout t @ [w]"
  by (auto simp: stdio_send_def split: if_splits option.splits)

lemma send_delivers: "send w t = Inr t' \<Longrightarrow> delivered t' = delivered t @ [w]"
  by (cases t) (auto split: sum.splits dest: ws_send_delivers stdio_send_delivers)

lemma broadcast_one_keeps_id: "fst (fst (snd (broadcast_one msg entry))) = fst entry"
  by (simp add: broadcast_one_def split: prod.splits sum.splits)

lemma broadcast_one_sends:
  "isConnected (snd entry) \<Longrightarrow> send (Notification msg) (snd entry) = Inr t' \<Longrightarrow>
     snd (fst (snd (broadcast_one msg entry))) = t'"
  by (cases entry) (simp add: broadcast_one_def)

lemma broadcast_one_skips:
  "\<not> isConnected (snd entry) \<or> (\<exists>e. send (Notification msg) (snd entry) = Inl e) \<Longrightarrow>
     snd (fst (snd (broadcast_one msg entry))) = snd entry"
  by (cases entry) (auto simp: broadcast_one_def)

lemma broadcast_transports:
  "transports (snd (broadcast msg mgr))
     = map (\<lambda>entry. fst (snd (broadcast_one msg entry))) (transports mgr)"
  by (simp add: broadcast_def Let_def comp_def)

text \<open>
  C10. \<open>broadcast\<close> never throws, and treats each transport of the manager on its own: one
  that is connected and whose send succeeds has the notification delivered, whatever
  happens to the others; one that is not connected, or whose send fails, is left as it was.
\<close>

theorem broadcast_independent_sends:
  "fst (broadcast msg mgr) = Inr ()
   \<and> length (transports (snd (broadcast msg mgr))) = length (transports mgr)
   \<and> (\<forall>i < length (transports mgr).
        fst (transports (snd (broadcast msg mgr)) ! i) = fst (transports mgr ! i)
        \<and> (\<forall>t'. isConnected (snd (transports mgr ! i))
                 \<and> send (Notification msg) (snd (transports mgr ! i)) = Inr t'
             \<longrightarrow> snd (transports (snd (broadcast msg mgr)) ! i) = t'
                 \<and> delivered t' = delivered (snd (transports mgr ! i)) @ [Notification msg])
        \<and> (\<not> isConnected (snd (transports mgr ! i))
             \<or> (\<exists>e. send (Notification msg) (snd (transports mgr ! i)) = Inl e)
             \<longrightarrow> snd (transports (snd (broadcast msg mgr)) ! i) = snd (transports mgr ! i)))"
proof -
  have settles: "fst (broadcast msg mgr) = Inr ()"
    by (simp add: broadcast_def Let_def allSettled_def)
  have len: "length (transports (snd (broadcast msg mgr))) = length (transports mgr)"
    by (simp add: broadcast_transports)
  have each: "fst (transports (snd (broadcast msg mgr)) ! i) = fst (transports mgr ! i)
        \<and> (\<forall>t'. isConnected (snd (transports mgr ! i))
                 \<and> send (Notification msg) (snd (transports mgr ! i)) = Inr t'
             \<longrightarrow> snd (transports (snd (broadcast msg mgr)) ! i) = t'
                 \<and> delivered t' = delivered (snd (transports mgr ! i)) @ [Notification msg])
        \<and> (\<not> isConnected (snd (transports mgr ! i))
             \<or> (\<exists>e. send (Notification msg) (snd (transports mgr ! i)) = Inl e)
             \<longrightarrow> snd (transports (snd (broadcast msg mgr)) ! i) = snd (transports mgr ! i))"
    if "i < length (transports mgr)" for i
  proof -
    have nth: "transports (snd (broadcast msg mgr)) ! i
        = fst (snd (broadcast_one msg (transports mgr ! i)))"
      using that by (simp add: broadcast_transports)
    show ?thesis
      unfolding nth
      using broadcast_one_keeps_id broadcast_one_sends broadcast_one_skips send_delivers
      by blast
  qed
  from settles len each show ?thesis by blast
qed

text \<open>
  Four transports, the second disconnected and the third with a failing send: the first
  and the fourth get the notification.
\<close>

theorem broadcast_independent_sends_witness:
  "fst (broadcast list_changed example_manager) = Inr ()
   \<and> delivered (snd (transports (snd (broadcast list_changed example_manager)) ! 0))
       = [Notification list_changed]
   \<and> delivered (snd (transports (snd (broadcast list_changed example_manager)) ! 3))
       = [Notification list_changed]"
proof -
  have s: "send (Notification list_changed) working
     = Inr (WebSocket \<lparr>socket = \<lparr>socket_connected = True, emit_throws = None,
              emitted = [Notification list_changed]\<rparr>, connected = True\<rparr>)"
    by (simp add: working_def open_socket_def ws_send_def)
  have c: "isConnected working"
    by (simp add: working_def open_socket_def ws_isConnected_def)
  have l: "length (transports example_manager) = 4"
    "transports example_manager ! 0 = (''a'', working)"
    "transports example_manager ! 3 = (''d'', working)"
    by (simp_all add: example_manager_def)
  from broadcast_independent_sends [of list_changed example_manager] have
    a: "fst (broadcast list_changed example_manager) = Inr ()" and
    b: "\<And>i t'. i < 4 \<Longrightarrow> isConnected (snd (transports example_manager ! i)) \<Longrightarrow>
          send (Notification list_changed) (snd (transports example_manager ! i)) = Inr t' \<Longrightarrow>
          delivered (snd (transports (snd (broadcast list_changed example_manager)) ! i))
            = delivered (snd (transports example_manager ! i)) @ [Notification list_changed]"
    using l(1) by auto
  have "delivered (snd (transports (snd (broadcast list_changed example_manager)) ! 0))
      = [Notification list_changed]"
    using b [of 0] s c l by (simp add: working_def open_socket_def)
  moreover have "delivered (snd (transports (snd (broadcast list_changed example_manager)) ! 3))
      = [Notification list_changed]"
    using b [of 3] s c l by (simp add: working_def open_socket_def)
  ultimately show ?thesis using a by simp
qed

end
